theory Spec2Isabelle
  imports Complex_Main
begin

section \<open>Polar XZ kinematics (klippy/kinematics/polarxz.py)\<close>

text \<open>
  A shallow embedding of \<^verbatim>\<open>polarxz.py\<close>. Python floats are modelled by the
  reals: rounding, infinities and NaN are outside the model, and \<^verbatim>\<open>math.sqrt\<close>,
  \<^verbatim>\<open>math.cos\<close> and \<^verbatim>\<open>math.sin\<close> are the real functions. Exceptions are
  values of the type \<open>error\<close>; a method that mutates an object returns the object as it
  is left, also when it raises.
\<close>

subsection \<open>Points, positions and errors\<close>

text \<open>
  The module functions read indices 0 and 1 of their arguments. A \<open>point\<close> is a two-tuple
  such as \<^verbatim>\<open>bed_center\<close> or a move option; a \<open>coord\<close> is a four-component position
  (\<^verbatim>\<open>toolhead.Coord\<close>, \<^verbatim>\<open>move.start_pos\<close>, \<^verbatim>\<open>move.axes_d\<close>), and \<open>xy\<close>
  is what indices 0 and 1 read from it.
\<close>

type_synonym point = "real \<times> real"

datatype coord = Coord (cx: real) (cy: real) (cz: real) (ce: real)

definition xy :: "coord \<Rightarrow> point" where
  "xy p = (cx p, cy p)"

datatype error =
    MoveError "string option"
  | ZeroDivisionError
  | IndexError
  | KeyError string

text \<open>\<^verbatim>\<open>a / b\<close> on floats raises when the divisor is zero.\<close>

definition py_div :: "real \<Rightarrow> real \<Rightarrow> error + real" where
  "py_div a b = (if b = 0 then Inl ZeroDivisionError else Inr (a / b))"

text \<open>\<^verbatim>\<open>xs[i]\<close> for a non-negative index.\<close>

definition get_item :: "'a list \<Rightarrow> nat \<Rightarrow> error + 'a" where
  "get_item xs i = (if i < length xs then Inr (xs ! i) else Inl IndexError)"

text \<open>
  \<^verbatim>\<open>math.pi\<close> is the double nearest to \<open>\<pi>\<close>, 3.141592653589793; its exact value is
  884279719003555 / 2^48.
\<close>

definition math_pi :: real where
  "math_pi = 884279719003555 / 281474976710656"

subsection \<open>Module functions\<close>

definition distance :: "point \<Rightarrow> point \<Rightarrow> real" where
  "distance p1 p2 = sqrt ((fst p2 - fst p1)\<^sup>2 + (snd p2 - snd p1)\<^sup>2)"

definition sqrdistance :: "point \<Rightarrow> point \<Rightarrow> real" where
  "sqrdistance p1 p2 = (fst p2 - fst p1)\<^sup>2 + (snd p2 - snd p1)\<^sup>2"

definition crosses_point :: "point \<Rightarrow> point \<Rightarrow> point \<Rightarrow> bool" where
  "crosses_point checkpoint p1 p2 \<longleftrightarrow>
     sqrdistance checkpoint p1 \<le> sqrdistance p1 p2 \<and>
     sqrdistance checkpoint p2 \<le> sqrdistance p1 p2"

subsection \<open>Collaborators\<close>

text \<open>
  Modelled from the spec: the rail (\<^verbatim>\<open>stepper.PrinterRail\<close>) is not among the
  sources. A rail has a name, a travel range \<open>[min, max]\<close> and homing metadata with an
  endstop position and a positive-direction flag.
\<close>

record homing_info =
  position_endstop :: real
  positive_dir :: bool

record rail =
  rail_name :: string
  position_min :: real
  position_max :: real
  homing :: homing_info

definition get_range :: "rail \<Rightarrow> real \<times> real" where
  "get_range r = (position_min r, position_max r)"

definition get_homing_info :: "rail \<Rightarrow> homing_info" where
  "get_homing_info r = homing r"

definition get_name :: "rail \<Rightarrow> string" where
  "get_name r = rail_name r"

text \<open>
  Modelled from the spec: the planner's Move type is not among the sources. A move has
  \<^verbatim>\<open>start_pos\<close>, \<^verbatim>\<open>end_pos\<close>, \<^verbatim>\<open>axes_d\<close>, \<^verbatim>\<open>move_d\<close> and a mutable pair
  of accel and velocity ceilings. Its method is \<^verbatim>\<open>limit_speed(accel, velocity)\<close>, and
  tightening is cumulative: each ceiling becomes the minimum of its value and the new one.
  \<^verbatim>\<open>move.move_error(msg)\<close> is \<open>MoveError (Some msg)\<close>, \<^verbatim>\<open>move.move_error()\<close> is
  \<open>MoveError None\<close>.
\<close>

record move =
  start_pos :: coord
  end_pos :: coord
  axes_d :: coord
  move_d :: real
  accel_ceiling :: real
  velocity_ceiling :: real

definition limit_speed :: "real \<Rightarrow> real \<Rightarrow> move \<Rightarrow> move" where
  "limit_speed accel velocity m =
     m\<lparr>accel_ceiling := min (accel_ceiling m) accel,
       velocity_ceiling := min (velocity_ceiling m) velocity\<rparr>"

text \<open>
  Modelled from the spec: the homing coordinator is not among the sources. It offers
  \<^verbatim>\<open>get_axes\<close>, \<^verbatim>\<open>set_axes\<close> and \<^verbatim>\<open>home_rails(rails, forcepos, homepos)\<close>; the
  embedding keeps the axes and every hand-off, in call order. A position list has four
  entries, \<^verbatim>\<open>None\<close> where no target is set.
\<close>

type_synonym homing_move = "rail list \<times> real option list \<times> real option list"

record homing_state =
  axes :: "nat list"
  home_rails_calls :: "homing_move list"

definition get_axes :: "homing_state \<Rightarrow> nat list" where
  "get_axes hs = axes hs"

definition set_axes :: "nat list \<Rightarrow> homing_state \<Rightarrow> homing_state" where
  "set_axes ax hs = hs\<lparr>axes := ax\<rparr>"

definition home_rails ::
  "rail list \<Rightarrow> real option list \<Rightarrow> real option list \<Rightarrow> homing_state \<Rightarrow> homing_state" where
  "home_rails rs forcepos homepos hs =
     hs\<lparr>home_rails_calls := home_rails_calls hs @ [(rs, forcepos, homepos)]\<rparr>"

subsection \<open>The kinematics object\<close>

text \<open>
  \<^verbatim>\<open>self.rails\<close> is the list \<^verbatim>\<open>[rail_x, rail_z]\<close>, built once; \<open>bed_name\<close> is the
  name of \<^verbatim>\<open>self.steppers[0]\<close>, the bed stepper. \<open>stepper_pos\<close> is the position last
  written to every stepper by \<^verbatim>\<open>set_position\<close>.
\<close>

record kinematics =
  rail_x :: rail
  rail_z :: rail
  bed_name :: string
  max_rotational_velocity :: real
  max_rotational_accel :: real
  max_z_velocity :: real
  max_z_accel :: real
  limit_z :: "real \<times> real"
  limit_xy2 :: real
  axes_min :: coord
  axes_max :: coord
  stepper_pos :: "coord option"

definition rails :: "kinematics \<Rightarrow> rail list" where
  "rails k = [rail_x k, rail_z k]"

text \<open>
  \<^verbatim>\<open>__init__\<close>, from the values the configuration resolves to: the bed stepper's name,
  the two rails and the four limits.
\<close>

definition init ::
  "string \<Rightarrow> rail \<Rightarrow> rail \<Rightarrow> real \<Rightarrow> real \<Rightarrow> real \<Rightarrow> real \<Rightarrow> kinematics" where
  "init bed rx rz rot_velocity rot_accel z_velocity z_accel =
     (let max_xy = snd (get_range rx);
          min_z = fst (get_range rz);
          max_z = snd (get_range rz)
      in \<lparr>rail_x = rx, rail_z = rz, bed_name = bed,
          max_rotational_velocity = rot_velocity,
          max_rotational_accel = rot_accel,
          max_z_velocity = z_velocity,
          max_z_accel = z_accel,
          limit_z = (1, - 1),
          limit_xy2 = - 1,
          axes_min = Coord (- max_xy) (- max_xy) min_z 0,
          axes_max = Coord max_xy max_xy max_z 0,
          stepper_pos = None\<rparr>)"

text \<open>
  \<^verbatim>\<open>calc_position\<close> looks three names up in a dictionary and returns a list holding
  one three-element list.
\<close>

definition lookup :: "(string \<rightharpoonup> real) \<Rightarrow> string \<Rightarrow> error + real" where
  "lookup d key = (case d key of None \<Rightarrow> Inl (KeyError key) | Some v \<Rightarrow> Inr v)"

definition calc_position :: "kinematics \<Rightarrow> (string \<rightharpoonup> real) \<Rightarrow> error + real list list" where
  "calc_position k stepper_positions =
     (case lookup stepper_positions (bed_name k) of
        Inl e \<Rightarrow> Inl e
      | Inr bed_angle \<Rightarrow>
     (case lookup stepper_positions (get_name (rails k ! 0)) of
        Inl e \<Rightarrow> Inl e
      | Inr x_pos \<Rightarrow>
     (case lookup stepper_positions (get_name (rails k ! 1)) of
        Inl e \<Rightarrow> Inl e
      | Inr z_pos \<Rightarrow>
          Inr [[0.5 * ((cos bed_angle * x_pos) - z_pos),
                sin bed_angle * x_pos,
                0.5 * (x_pos + z_pos)]])))"

subsection \<open>Boundary state\<close>

definition set_position :: "coord \<Rightarrow> nat list \<Rightarrow> kinematics \<Rightarrow> kinematics" where
  "set_position newpos homing_axes k =
     (let k1 = k\<lparr>stepper_pos := Some newpos\<rparr>;
          k2 = (if 2 \<in> set homing_axes
                then k1\<lparr>limit_z := get_range (rails k1 ! 1)\<rparr> else k1)
      in if 0 \<in> set homing_axes \<and> 1 \<in> set homing_axes
         then k2\<lparr>limit_xy2 := (snd (get_range (rails k2 ! 0)))\<^sup>2\<rparr> else k2)"

definition note_z_not_homed :: "kinematics \<Rightarrow> kinematics" where
  "note_z_not_homed k = k\<lparr>limit_z := (1, - 1)\<rparr>"

definition motor_off :: "real \<Rightarrow> kinematics \<Rightarrow> kinematics" where
  "motor_off print_time k = k\<lparr>limit_z := (1, - 1), limit_xy2 := - 1\<rparr>"

text \<open>The three calls that change the boundary state, and a history of them.\<close>

datatype event =
    SetPosition coord "nat list"
  | NoteZNotHomed
  | MotorOff real

fun apply_event :: "kinematics \<Rightarrow> event \<Rightarrow> kinematics" where
  "apply_event k (SetPosition newpos homing_axes) = set_position newpos homing_axes k"
| "apply_event k NoteZNotHomed = note_z_not_homed k"
| "apply_event k (MotorOff print_time) = motor_off print_time k"

definition run :: "event list \<Rightarrow> kinematics \<Rightarrow> kinematics" where
  "run evs k = foldl apply_event k evs"

text \<open>
  What the history says, read backwards from now (the argument is the history, newest
  event first): a \<^verbatim>\<open>set_position\<close> with both planar axes has occurred since the last
  motor-off, respectively one with the Z axis since the last motor-off or
  \<^verbatim>\<open>note_z_not_homed\<close>.
\<close>

fun xy_homed_since :: "event list \<Rightarrow> bool" where
  "xy_homed_since [] = False"
| "xy_homed_since (MotorOff t # older) = False"
| "xy_homed_since (SetPosition p ax # older) =
     ((0 \<in> set ax \<and> 1 \<in> set ax) \<or> xy_homed_since older)"
| "xy_homed_since (NoteZNotHomed # older) = xy_homed_since older"

fun z_homed_since :: "event list \<Rightarrow> bool" where
  "z_homed_since [] = False"
| "z_homed_since (MotorOff t # older) = False"
| "z_homed_since (NoteZNotHomed # older) = False"
| "z_homed_since (SetPosition p ax # older) = (2 \<in> set ax \<or> z_homed_since older)"

definition is_motor_off :: "event \<Rightarrow> bool" where
  "is_motor_off e = (case e of MotorOff t \<Rightarrow> True | _ \<Rightarrow> False)"

definition is_z_reset :: "event \<Rightarrow> bool" where
  "is_z_reset e = (case e of SetPosition p ax \<Rightarrow> False | _ \<Rightarrow> True)"

subsection \<open>Homing\<close>

text \<open>
  \<^verbatim>\<open>_home_axis\<close>. \<^verbatim>\<open>forcepos[axis] -= d\<close> reads the entry just copied from
  \<^verbatim>\<open>homepos\<close> and writes it back; an index beyond the four entries raises.
\<close>

definition home_axis :: "homing_state \<Rightarrow> nat \<Rightarrow> rail \<Rightarrow> error + homing_state" where
  "home_axis hs axis rl =
     (let position_min' = fst (get_range rl);
          position_max' = snd (get_range rl);
          hi = get_homing_info rl;
          homepos0 = [None, None, None, None]
      in if \<not> axis < length homepos0 then Inl IndexError
         else
           let homepos1 = homepos0[axis := Some (position_endstop hi)];
               homepos = (if axis = 0 then homepos1[1 := Some 0] else homepos1);
               forcepos0 = homepos;
               forcepos =
                 (if positive_dir hi
                  then forcepos0[axis := map_option
                         (\<lambda>v. v - (position_endstop hi - position_min')) (forcepos0 ! axis)]
                  else forcepos0[axis := map_option
                         (\<lambda>v. v + (position_max' - position_endstop hi)) (forcepos0 ! axis)])
           in Inr (home_rails [rl] forcepos homepos hs))"

definition home :: "kinematics \<Rightarrow> homing_state \<Rightarrow> error + homing_state" where
  "home k homing_state =
     (let homing_axes = get_axes homing_state;
          home_xy = (0 \<in> set homing_axes \<or> 1 \<in> set homing_axes);
          home_z = (2 \<in> set homing_axes);
          updated_axes0 = (if home_xy then [0, 1] else []);
          updated_axes = (if home_z then updated_axes0 @ [2] else updated_axes0);
          hs1 = set_axes updated_axes homing_state
      in case (if home_xy
               then (case home_axis hs1 0 (rails k ! 0) of
                       Inl e \<Rightarrow> Inl e
                     | Inr hs2 \<Rightarrow> home_axis hs2 1 (rails k ! 0))
               else Inr hs1) of
           Inl e \<Rightarrow> Inl e
         | Inr hs3 \<Rightarrow> if home_z then home_axis hs3 2 (rails k ! 1) else Inr hs3)"

text \<open>
  \<^verbatim>\<open>home2\<close>. The statement \<^verbatim>\<open>if axis == 1: next\<close> names a builtin and does
  nothing, so the loop body is the same for every axis. The result is the homing state
  as the loop leaves it, with the exception that ended it, if any.
\<close>

fun home2_loop :: "kinematics \<Rightarrow> nat list \<Rightarrow> homing_state \<Rightarrow> error option \<times> homing_state" where
  "home2_loop k [] hs = (None, hs)"
| "home2_loop k (axis # rest) hs =
     (case get_item (rails k) axis of
        Inl e \<Rightarrow> (Some e, hs)
      | Inr rl \<Rightarrow>
          let position_min' = fst (get_range rl);
              position_max' = snd (get_range rl);
              hi = get_homing_info rl;
              homepos0 = [None, None, None, None]
          in if \<not> axis < length homepos0 then (Some IndexError, hs)
             else
               let homepos = homepos0[axis := Some (position_endstop hi)];
                   forcepos0 = homepos;
                   forcepos =
                     (if positive_dir hi
                      then forcepos0[axis := map_option
                             (\<lambda>v. v - 1.5 * (position_endstop hi - position_min'))
                             (forcepos0 ! axis)]
                      else forcepos0[axis := map_option
                             (\<lambda>v. v + 1.5 * (position_max' - position_endstop hi))
                             (forcepos0 ! axis)])
               in home2_loop k rest (home_rails [rl] forcepos homepos hs))"

definition home2 :: "kinematics \<Rightarrow> homing_state \<Rightarrow> error option \<times> homing_state" where
  "home2 k homing_state = home2_loop k (get_axes homing_state) homing_state"

subsection \<open>check_move\<close>

text \<open>
  The result is the exception raised, if any, and the move as the call leaves it. The
  local \<^verbatim>\<open>pi = 3.1415\<close> is assigned and never read: the scale is computed with
  \<^verbatim>\<open>math.pi\<close>.
\<close>

definition check_move :: "kinematics \<Rightarrow> move \<Rightarrow> error option \<times> move" where
  "check_move k mv =
     (let end_pos' = end_pos mv;
          xy2 = (cx end_pos')\<^sup>2 + (cy end_pos')\<^sup>2
      in if xy2 > limit_xy2 k then
           (if limit_xy2 k < 0
            then (Some (MoveError (Some ''Must home axis first'')), mv)
            else (Some (MoveError None), mv))
         else
           case (if cx (axes_d mv) \<noteq> 0 \<or> cy (axes_d mv) \<noteq> 0 then
                   (let bed_center = (0, 0);
                        bed_radius = distance bed_center (fst bed_center, cx (axes_min k));
                        start_xy = start_pos mv;
                        end_xy = end_pos mv;
                        start_radius = distance bed_center (xy start_xy);
                        end_radius = distance bed_center (xy end_xy)
                    in case py_div (min start_radius end_radius) bed_radius of
                         Inl e \<Rightarrow> Inl e
                       | Inr q \<Rightarrow>
                           let scale = 2 * math_pi * q
                           in Inr (limit_speed (max_rotational_accel k)
                                     (max_rotational_velocity k * scale) mv))
                 else Inr mv) of
             Inl e \<Rightarrow> (Some e, mv)
           | Inr mv1 \<Rightarrow>
               if cz (axes_d mv1) \<noteq> 0 then
                 if cz end_pos' < fst (limit_z k) \<or> cz end_pos' > snd (limit_z k) then
                   (if fst (limit_z k) > snd (limit_z k)
                    then (Some (MoveError (Some ''Must home axis first'')), mv1)
                    else (Some (MoveError None), mv1))
                 else
                   (case py_div (move_d mv1) \<bar>cz (axes_d mv1)\<bar> of
                      Inl e \<Rightarrow> (Some e, mv1)
                    | Inr z_ratio \<Rightarrow>
                        (None, limit_speed (max_z_velocity k * z_ratio)
                                 (max_z_accel k * z_ratio) mv1))
               else (None, mv1))"

subsection \<open>segment_move\<close>

text \<open>
  The four loop variables, and one pass of the loop body for a move option. A waypoint of
  the returned path is a position of the move or a selected option, which is
  \<^verbatim>\<open>None\<close> as long as the loop has selected nothing.
\<close>

record closest =
  closest_to_start :: real
  closest_to_end :: real
  closest_end_pos :: "point option"
  closest_start_pos :: "point option"

definition segment_step :: "move \<Rightarrow> point \<Rightarrow> closest \<Rightarrow> closest" where
  "segment_step mv move_option st =
     (let dist_to_end = distance move_option (xy (end_pos mv));
          dist_to_start = distance move_option (xy (start_pos mv));
          st1 = (if dist_to_end < closest_to_end st
                 then st\<lparr>closest_to_end := dist_to_end, closest_end_pos := Some move_option\<rparr>
                 else st)
      in if dist_to_start < closest_to_start st1
         then st1\<lparr>closest_to_start := dist_to_start, closest_start_pos := Some move_option\<rparr>
         else st1)"

datatype waypoint = Pos coord | Via "point option"

definition move_options :: "move \<Rightarrow> point list" where
  "move_options mv =
     (if cx (start_pos mv) = 0 \<and> cx (end_pos mv) = 0 then
        [(0, 0.005), (0, - 0.005)]
      else if cy (start_pos mv) = 0 \<and> cy (end_pos mv) = 0 then
        [(0.005, 0), (- 0.005, 0)]
      else
        [(0, 0.005), (0.005, 0), (0, - 0.005), (- 0.005, 0)])"

definition segment_move :: "move \<Rightarrow> (waypoint \<times> waypoint) list option" where
  "segment_move mv =
     (if crosses_point (0, 0) (xy (start_pos mv)) (xy (end_pos mv)) then
        (let st = fold (segment_step mv) (move_options mv)
                    \<lparr>closest_to_start = 100000, closest_to_end = 100000,
                     closest_end_pos = None, closest_start_pos = None\<rparr>;
             move1 = (Pos (start_pos mv), Via (closest_start_pos st));
             move2 = (Via (closest_start_pos st), Via (closest_end_pos st));
             move3 = (Via (closest_end_pos st), Pos (end_pos mv))
         in Some [move1, move2, move3])
      else None)"

subsection \<open>The specification's scale, and example inputs\<close>


text \<open>
  A machine with a radial rail of travel \<open>[0, 10]\<close> and a vertical rail of travel
  \<open>[0, 20]\<close>, unhomed and homed; one whose radial rail has travel \<open>[-10, 0]\<close>; and
  some moves, each with both ceilings at 1000 before the check.
\<close>

definition ex_rail_x :: rail where
  "ex_rail_x = \<lparr>rail_name = ''stepper_x'', position_min = 0, position_max = 10,
     homing = \<lparr>position_endstop = 0, positive_dir = False\<rparr>\<rparr>"

definition ex_rail_z :: rail where
  "ex_rail_z = \<lparr>rail_name = ''stepper_z'', position_min = 0, position_max = 20,
     homing = \<lparr>position_endstop = 0, positive_dir = False\<rparr>\<rparr>"

definition ex_rail_neg :: rail where
  "ex_rail_neg = \<lparr>rail_name = ''stepper_x'', position_min = - 10, position_max = 0,
     homing = \<lparr>position_endstop = - 10, positive_dir = False\<rparr>\<rparr>"

definition ex_kin :: kinematics where
  "ex_kin = init ''stepper_bed'' ex_rail_x ex_rail_z 50 100 5 10"

definition ex_homed :: kinematics where
  "ex_homed = set_position (Coord 0 0 0 0) [0, 1, 2] ex_kin"

definition ex_homed_neg :: kinematics where
  "ex_homed_neg = set_position (Coord 1 0 0 0) [0, 1, 2]
     (init ''stepper_bed'' ex_rail_neg ex_rail_z 50 100 5 10)"


definition ex_move_z :: move where
  "ex_move_z = \<lparr>start_pos = Coord 0 0 0 0, end_pos = Coord 0 0 5 0,
     axes_d = Coord 0 0 5 0, move_d = 5,
     accel_ceiling = 1000, velocity_ceiling = 1000\<rparr>"

definition ex_move_high :: move where
  "ex_move_high = \<lparr>start_pos = Coord 0 0 0 0, end_pos = Coord 0 0 25 0,
     axes_d = Coord 0 0 25 0, move_d = 25,
     accel_ceiling = 1000, velocity_ceiling = 1000\<rparr>"

definition ex_move_in :: move where
  "ex_move_in = \<lparr>start_pos = Coord 1 0 0 0, end_pos = Coord 0 0 0 0,
     axes_d = Coord (- 1) 0 0 0, move_d = 1,
     accel_ceiling = 1000, velocity_ceiling = 1000\<rparr>"



text \<open>A machine whose radial rail has its endstop in the middle of the travel.\<close>

definition ex_rail_mid :: rail where
  "ex_rail_mid = \<lparr>rail_name = ''stepper_x'', position_min = 0, position_max = 10,
     homing = \<lparr>position_endstop = 5, positive_dir = True\<rparr>\<rparr>"

definition ex_kin_mid :: kinematics where
  "ex_kin_mid = init ''stepper_bed'' ex_rail_mid ex_rail_z 50 100 5 10"

text \<open>
  Moves for \<^verbatim>\<open>segment_move\<close>: one between points 200000 units from the center on
  either side, the move from \<open>(-1, 0)\<close> to \<open>(1, 0)\<close> and the move from \<open>(2, 2)\<close> to
  \<open>(3, 3)\<close>.
\<close>

definition ex_move_far :: move where
  "ex_move_far = \<lparr>start_pos = Coord (- 200000) 0 0 0, end_pos = Coord 200000 0 0 0,
     axes_d = Coord 400000 0 0 0, move_d = 400000,
     accel_ceiling = 1000, velocity_ceiling = 1000\<rparr>"

definition ex_move_through :: move where
  "ex_move_through = \<lparr>start_pos = Coord (- 1) 0 0 0, end_pos = Coord 1 0 0 0,
     axes_d = Coord 2 0 0 0, move_d = 2,
     accel_ceiling = 1000, velocity_ceiling = 1000\<rparr>"

definition ex_move_away :: move where
  "ex_move_away = \<lparr>start_pos = Coord 2 2 0 0, end_pos = Coord 3 3 0 0,
     axes_d = Coord 1 1 0 0, move_d = sqrt 2,
     accel_ceiling = 1000, velocity_ceiling = 1000\<rparr>"

text \<open>
  The selection as the specification words it: \<open>v\<close> is a candidate nearest (Euclidean)
  to the target.
\<close>

definition nearest :: "point list \<Rightarrow> point \<Rightarrow> point \<Rightarrow> bool" where
  "nearest options target v \<longleftrightarrow>
     v \<in> set options \<and> (\<forall>c \<in> set options. distance v target \<le> distance c target)"

section \<open>Properties\<close>

subsection \<open>Geometry\<close>

lemma sqrdistance_commute: "sqrdistance p q = sqrdistance q p"
  by (simp add: sqrdistance_def power2_commute)

lemma distance_sqrdistance: "distance p q = sqrt (sqrdistance p q)"
  by (simp add: distance_def sqrdistance_def)

lemma sqrdistance_nonneg: "0 \<le> sqrdistance p q"
  by (simp add: sqrdistance_def)

text \<open>
  Claim C9. \<open>crosses_point\<close> is symmetric in its last two arguments: for all points
  \<open>p\<close>, \<open>a\<close>, \<open>b\<close>, \<open>crosses_point p a b = crosses_point p b a\<close>.
\<close>

theorem crosses_point_symmetric: "crosses_point p a b = crosses_point p b a"
  unfolding crosses_point_def sqrdistance_commute [of a b] by (rule conj_commute)

subsection \<open>check_move\<close>

lemma distance_center_y: "distance (0, 0) (0, a) = \<bar>a\<bar>"
  by (simp add: distance_def)

lemma distance_center_x: "distance (0, 0) (a, 0) = \<bar>a\<bar>"
  by (simp add: distance_def)

lemma ex_homed_simps:
  "limit_xy2 ex_homed = 100" "limit_z ex_homed = (0, 20)"
  "axes_min ex_homed = Coord (- 10) (- 10) 0 0" "rail_x ex_homed = ex_rail_x"
  "max_rotational_velocity ex_homed = 50" "max_rotational_accel ex_homed = 100"
  "max_z_velocity ex_homed = 5" "max_z_accel ex_homed = 10"
  by (simp_all add: ex_homed_def ex_kin_def init_def set_position_def rails_def Let_def
      get_range_def ex_rail_x_def ex_rail_z_def)

lemma ex_homed_neg_simps:
  "limit_xy2 ex_homed_neg = 0" "limit_z ex_homed_neg = (0, 20)"
  "axes_min ex_homed_neg = Coord 0 0 0 0" "max_rotational_accel ex_homed_neg = 100"
  by (simp_all add: ex_homed_neg_def init_def set_position_def rails_def Let_def
      get_range_def ex_rail_neg_def ex_rail_z_def)


lemma check_move_unfold:
  "check_move k mv =
     (if (cx (end_pos mv))\<^sup>2 + (cy (end_pos mv))\<^sup>2 > limit_xy2 k then
        (Some (MoveError (if limit_xy2 k < 0 then Some ''Must home axis first'' else None)), mv)
      else if (cx (axes_d mv) \<noteq> 0 \<or> cy (axes_d mv) \<noteq> 0) \<and> cx (axes_min k) = 0 then
        (Some ZeroDivisionError, mv)
      else
        let mv1 = (if cx (axes_d mv) \<noteq> 0 \<or> cy (axes_d mv) \<noteq> 0 then
                     limit_speed (max_rotational_accel k)
                       (max_rotational_velocity k * (2 * math_pi *
                          (min (distance (0, 0) (xy (start_pos mv)))
                               (distance (0, 0) (xy (end_pos mv))) / \<bar>cx (axes_min k)\<bar>))) mv
                   else mv)
        in if cz (axes_d mv) = 0 then (None, mv1)
           else if cz (end_pos mv) < fst (limit_z k) \<or> cz (end_pos mv) > snd (limit_z k) then
             (Some (MoveError (if fst (limit_z k) > snd (limit_z k)
                               then Some ''Must home axis first'' else None)), mv1)
           else (None, limit_speed (max_z_velocity k * (move_d mv / \<bar>cz (axes_d mv)\<bar>))
                         (max_z_accel k * (move_d mv / \<bar>cz (axes_d mv)\<bar>)) mv1))"
  by (auto simp: check_move_def Let_def distance_center_y py_div_def limit_speed_def)




text \<open>
  What holds of claim C6 on the code. A move with nonzero vertical displacement that
  reaches the Z window check (the radius check passes and the rotational scale does not
  divide by zero) and whose destination lies in the window raises nothing, so the division
  by \<open>\<bar>\<Delta>z\<bar>\<close> is safe. For such a move without planar displacement the call
  \<^verbatim>\<open>limit_speed(max_z_velocity * z_ratio, max_z_accel * z_ratio)\<close>, with
  \<open>z_ratio = move_d / \<bar>\<Delta>z\<bar>\<close>, puts its first argument on the accel ceiling and its
  second on the velocity ceiling.
\<close>

lemma check_move_z_division_safe:
  assumes "(cx (end_pos mv))\<^sup>2 + (cy (end_pos mv))\<^sup>2 \<le> limit_xy2 k"
    and "cx (axes_d mv) \<noteq> 0 \<or> cy (axes_d mv) \<noteq> 0 \<longrightarrow> cx (axes_min k) \<noteq> 0"
    and "cz (axes_d mv) \<noteq> 0"
    and "fst (limit_z k) \<le> cz (end_pos mv)" and "cz (end_pos mv) \<le> snd (limit_z k)"
  shows "fst (check_move k mv) = None"
  using assms by (auto simp: check_move_unfold Let_def)

lemma check_move_vertical_ceilings:
  assumes "(cx (end_pos mv))\<^sup>2 + (cy (end_pos mv))\<^sup>2 \<le> limit_xy2 k"
    and "cx (axes_d mv) = 0" and "cy (axes_d mv) = 0"
    and "cz (axes_d mv) \<noteq> 0"
    and "fst (limit_z k) \<le> cz (end_pos mv)" and "cz (end_pos mv) \<le> snd (limit_z k)"
  shows "accel_ceiling (snd (check_move k mv)) =
           min (accel_ceiling mv) (max_z_velocity k * (move_d mv / \<bar>cz (axes_d mv)\<bar>))"
    and "velocity_ceiling (snd (check_move k mv)) =
           min (velocity_ceiling mv) (max_z_accel k * (move_d mv / \<bar>cz (axes_d mv)\<bar>))"
  using assms by (auto simp: check_move_unfold Let_def limit_speed_def)



text \<open>
  Claim C3 as stated fails on a homed machine whose radial rail has travel \<open>[-10, 0]\<close>:
  the move from \<open>(1, 0)\<close> to the center passes the radius check and has no vertical
  displacement, and \<open>check_move\<close> raises \<^verbatim>\<open>ZeroDivisionError\<close>.
\<close>

theorem check_move_zero_division_counterexample:
  "fst (check_move ex_homed_neg ex_move_in) = Some ZeroDivisionError \<and>
   \<not> (cx (end_pos ex_move_in))\<^sup>2 + (cy (end_pos ex_move_in))\<^sup>2 > limit_xy2 ex_homed_neg \<and>
   cz (axes_d ex_move_in) = 0"
  by (simp add: check_move_def Let_def ex_homed_neg_simps ex_move_in_def py_div_def
      distance_center_y distance_center_x xy_def)

text \<open>
  Claim C3, as amended. \<open>check_move\<close> fails exactly as follows, in this order: if
  \<open>end.x^2 + end.y^2 > limit_xy2\<close> it raises the move error "Must home axis first" when
  \<open>limit_xy2 < 0\<close> and the move error without message otherwise; else, for a move with
  nonzero planar displacement on a machine whose \<open>axes_min.x\<close> is zero, it raises
  \<^verbatim>\<open>ZeroDivisionError\<close>; else, for a move with nonzero vertical displacement whose
  destination Z lies outside \<open>limit_z\<close>, it raises "Must home axis first" when
  \<open>limit_z.0 > limit_z.1\<close> and the move error without message otherwise; no other
  condition makes it fail.
\<close>

theorem check_move_failures:
  "fst (check_move k mv) =
     (if (cx (end_pos mv))\<^sup>2 + (cy (end_pos mv))\<^sup>2 > limit_xy2 k then
        (if limit_xy2 k < 0 then Some (MoveError (Some ''Must home axis first''))
         else Some (MoveError None))
      else if (cx (axes_d mv) \<noteq> 0 \<or> cy (axes_d mv) \<noteq> 0) \<and> cx (axes_min k) = 0 then
        Some ZeroDivisionError
      else if cz (axes_d mv) \<noteq> 0 \<and>
              (cz (end_pos mv) < fst (limit_z k) \<or> cz (end_pos mv) > snd (limit_z k)) then
        (if fst (limit_z k) > snd (limit_z k)
         then Some (MoveError (Some ''Must home axis first''))
         else Some (MoveError None))
      else None)"
  by (auto simp: check_move_unfold Let_def)

text \<open>
  On the homed example machine a Z move to 25, above the window \<open>[0, 20]\<close>, raises the
  move error without message.
\<close>

theorem check_move_failures_witness:
  "fst (check_move ex_homed ex_move_high) = Some (MoveError None)"
  using check_move_failures [of ex_homed ex_move_high]
  by (simp add: ex_homed_simps ex_move_high_def)

text \<open>
  Claim C10. Whenever the XY limit is unhomed (\<open>limit_xy2 < 0\<close>), \<open>check_move\<close> rejects
  every move with "Must home axis first" and leaves it untouched, whatever its
  displacement and destination.
\<close>

theorem check_move_unhomed_rejects:
  assumes "limit_xy2 k < 0"
  shows "check_move k mv = (Some (MoveError (Some ''Must home axis first'')), mv)"
proof -
  have "0 \<le> (cx (end_pos mv))\<^sup>2 + (cy (end_pos mv))\<^sup>2"
    by simp
  with assms have "limit_xy2 k < (cx (end_pos mv))\<^sup>2 + (cy (end_pos mv))\<^sup>2"
    by linarith
  with assms show ?thesis
    by (simp add: check_move_def Let_def)
qed

text \<open>The freshly constructed example machine rejects a pure Z move.\<close>

theorem check_move_unhomed_rejects_witness:
  "limit_xy2 ex_kin < 0 \<and>
   check_move ex_kin ex_move_z = (Some (MoveError (Some ''Must home axis first'')), ex_move_z)"
  using check_move_unhomed_rejects [of ex_kin ex_move_z]
  by (simp add: ex_kin_def init_def Let_def)

subsection \<open>Boundary state\<close>

lemma run_snoc: "run (evs @ [e]) k = apply_event (run evs k) e"
  by (simp add: run_def)

lemma run_Nil: "run [] k = k"
  by (simp add: run_def)

text \<open>
  What every reachable state holds: the rails and \<open>axes_min\<close> of the constructor (so
  \<open>axes_min.x\<close> is minus the radial rail's maximum travel, as the rotational limit above
  assumes), and limits that are the rail values or the unhomed sentinels, as the history
  says.
\<close>

lemma run_init_state:
  "rail_x (run evs (init bed rx rz rv ra zv za)) = rx \<and>
   rail_z (run evs (init bed rx rz rv ra zv za)) = rz \<and>
   axes_min (run evs (init bed rx rz rv ra zv za)) =
     Coord (- position_max rx) (- position_max rx) (position_min rz) 0 \<and>
   limit_xy2 (run evs (init bed rx rz rv ra zv za)) =
     (if xy_homed_since (rev evs) then (position_max rx)\<^sup>2 else - 1) \<and>
   limit_z (run evs (init bed rx rz rv ra zv za)) =
     (if z_homed_since (rev evs) then (position_min rz, position_max rz) else (1, - 1))"
proof (induction evs rule: rev_induct)
  case Nil
  show ?case
    by (simp add: run_Nil init_def Let_def get_range_def)
next
  case (snoc e evs)
  show ?case
  proof (cases e)
    case (SetPosition p ax)
    with snoc show ?thesis
      by (simp add: run_snoc set_position_def Let_def rails_def get_range_def)
  next
    case NoteZNotHomed
    with snoc show ?thesis
      by (simp add: run_snoc note_z_not_homed_def)
  next
    case (MotorOff t)
    with snoc show ?thesis
      by (simp add: run_snoc motor_off_def)
  qed
qed

text \<open>
  Claim C4. In every reachable state of a kinematics object whose Z rail has a travel
  range \<open>[min, max]\<close> with \<open>min \<le> max\<close> (constructed unhomed, then any history of
  \<^verbatim>\<open>set_position\<close>, \<^verbatim>\<open>note_z_not_homed\<close> and motor-off calls), \<open>limit_xy2 \<ge> 0\<close>
  holds iff a \<^verbatim>\<open>set_position\<close> with both planar axes has occurred since construction
  or the last motor-off, and \<open>limit_z.0 \<le> limit_z.1\<close> holds iff a \<^verbatim>\<open>set_position\<close>
  with the Z axis has occurred since the last motor-off or \<^verbatim>\<open>note_z_not_homed\<close>;
  motor-off resets both limits to the unhomed sentinels in any state.
\<close>

theorem boundary_state_invariant:
  assumes "position_min rz \<le> position_max rz"
  shows "(0 \<le> limit_xy2 (run evs (init bed rx rz rv ra zv za)) \<longleftrightarrow> xy_homed_since (rev evs)) \<and>
         (fst (limit_z (run evs (init bed rx rz rv ra zv za)))
            \<le> snd (limit_z (run evs (init bed rx rz rv ra zv za))) \<longleftrightarrow> z_homed_since (rev evs)) \<and>
         limit_xy2 (motor_off t k) = - 1 \<and> limit_z (motor_off t k) = (1, - 1)"
  using assms by (simp add: run_init_state motor_off_def)

text \<open>
  The two history predicates say what their names say: some \<^verbatim>\<open>set_position\<close> of the
  history has the axes, and no reset follows it.
\<close>

lemma xy_homed_since_intro:
  assumes "\<forall>e \<in> set newer. \<not> is_motor_off e" and "0 \<in> set ax" and "1 \<in> set ax"
  shows "xy_homed_since (newer @ SetPosition p ax # older)"
  using assms
proof (induction newer)
  case Nil
  then show ?case by simp
next
  case (Cons e newer)
  then show ?case by (cases e) (simp_all add: is_motor_off_def)
qed

lemma xy_homed_since_elim:
  assumes "xy_homed_since xs"
  shows "\<exists>newer p ax older. xs = newer @ SetPosition p ax # older \<and> 0 \<in> set ax \<and> 1 \<in> set ax \<and>
           (\<forall>e \<in> set newer. \<not> is_motor_off e)"
  using assms
proof (induction xs rule: xy_homed_since.induct)
  case 1
  then show ?case by simp
next
  case (2 t older)
  then show ?case by simp
next
  case (3 p ax older)
  show ?case
  proof (cases "0 \<in> set ax \<and> 1 \<in> set ax")
    case True
    then have "SetPosition p ax # older = [] @ SetPosition p ax # older \<and> 0 \<in> set ax \<and>
        1 \<in> set ax \<and> (\<forall>e \<in> set []. \<not> is_motor_off e)"
      by simp
    then show ?thesis by blast
  next
    case False
    with 3 obtain newer q bx older' where
      eq: "older = newer @ SetPosition q bx # older'" and bx: "0 \<in> set bx" "1 \<in> set bx"
      and nm: "\<forall>e \<in> set newer. \<not> is_motor_off e"
      by auto
    have "SetPosition p ax # older = (SetPosition p ax # newer) @ SetPosition q bx # older' \<and>
        0 \<in> set bx \<and> 1 \<in> set bx \<and> (\<forall>e \<in> set (SetPosition p ax # newer). \<not> is_motor_off e)"
      using eq bx nm by (simp add: is_motor_off_def)
    then show ?thesis by blast
  qed
next
  case (4 older)
  then obtain newer q bx older' where
    eq: "older = newer @ SetPosition q bx # older'" and bx: "0 \<in> set bx" "1 \<in> set bx"
    and nm: "\<forall>e \<in> set newer. \<not> is_motor_off e"
    by auto
  have "NoteZNotHomed # older = (NoteZNotHomed # newer) @ SetPosition q bx # older' \<and>
      0 \<in> set bx \<and> 1 \<in> set bx \<and> (\<forall>e \<in> set (NoteZNotHomed # newer). \<not> is_motor_off e)"
    using eq bx nm by (simp add: is_motor_off_def)
  then show ?case by blast
qed

lemma xy_homed_since_iff:
  "xy_homed_since (rev evs) \<longleftrightarrow>
     (\<exists>pre p ax post. evs = pre @ SetPosition p ax # post \<and> 0 \<in> set ax \<and> 1 \<in> set ax \<and>
        (\<forall>e \<in> set post. \<not> is_motor_off e))"
proof
  assume "xy_homed_since (rev evs)"
  then obtain newer p ax older where
    eq: "rev evs = newer @ SetPosition p ax # older" and ax: "0 \<in> set ax" "1 \<in> set ax"
    and nm: "\<forall>e \<in> set newer. \<not> is_motor_off e"
    using xy_homed_since_elim by blast
  from eq have "rev (rev evs) = rev (newer @ SetPosition p ax # older)"
    by simp
  then have "evs = rev older @ SetPosition p ax # rev newer"
    by simp
  with ax nm show "\<exists>pre p ax post. evs = pre @ SetPosition p ax # post \<and> 0 \<in> set ax \<and>
      1 \<in> set ax \<and> (\<forall>e \<in> set post. \<not> is_motor_off e)"
    by (metis set_rev)
next
  assume "\<exists>pre p ax post. evs = pre @ SetPosition p ax # post \<and> 0 \<in> set ax \<and> 1 \<in> set ax \<and>
      (\<forall>e \<in> set post. \<not> is_motor_off e)"
  then obtain pre p ax post where eq: "evs = pre @ SetPosition p ax # post"
    and ax: "0 \<in> set ax" "1 \<in> set ax" and nm: "\<forall>e \<in> set post. \<not> is_motor_off e"
    by blast
  from eq have "rev evs = rev post @ SetPosition p ax # rev pre"
    by simp
  moreover have "xy_homed_since (rev post @ SetPosition p ax # rev pre)"
    using nm ax by (intro xy_homed_since_intro) simp_all
  ultimately show "xy_homed_since (rev evs)"
    by simp
qed

lemma z_homed_since_intro:
  assumes "\<forall>e \<in> set newer. \<not> is_z_reset e" and "2 \<in> set ax"
  shows "z_homed_since (newer @ SetPosition p ax # older)"
  using assms
proof (induction newer)
  case Nil
  then show ?case by simp
next
  case (Cons e newer)
  then show ?case by (cases e) (simp_all add: is_z_reset_def)
qed

lemma z_homed_since_elim:
  assumes "z_homed_since xs"
  shows "\<exists>newer p ax older. xs = newer @ SetPosition p ax # older \<and> 2 \<in> set ax \<and>
           (\<forall>e \<in> set newer. \<not> is_z_reset e)"
  using assms
proof (induction xs rule: z_homed_since.induct)
  case 1
  then show ?case by simp
next
  case (2 t older)
  then show ?case by simp
next
  case (3 older)
  then show ?case by simp
next
  case (4 p ax older)
  show ?case
  proof (cases "2 \<in> set ax")
    case True
    then have "SetPosition p ax # older = [] @ SetPosition p ax # older \<and> 2 \<in> set ax \<and>
        (\<forall>e \<in> set []. \<not> is_z_reset e)"
      by simp
    then show ?thesis by blast
  next
    case False
    with 4 obtain newer q bx older' where
      eq: "older = newer @ SetPosition q bx # older'" and bx: "2 \<in> set bx"
      and nm: "\<forall>e \<in> set newer. \<not> is_z_reset e"
      by auto
    have "SetPosition p ax # older = (SetPosition p ax # newer) @ SetPosition q bx # older' \<and>
        2 \<in> set bx \<and> (\<forall>e \<in> set (SetPosition p ax # newer). \<not> is_z_reset e)"
      using eq bx nm by (simp add: is_z_reset_def)
    then show ?thesis by blast
  qed
qed

lemma z_homed_since_iff:
  "z_homed_since (rev evs) \<longleftrightarrow>
     (\<exists>pre p ax post. evs = pre @ SetPosition p ax # post \<and> 2 \<in> set ax \<and>
        (\<forall>e \<in> set post. \<not> is_z_reset e))"
proof
  assume "z_homed_since (rev evs)"
  then obtain newer p ax older where
    eq: "rev evs = newer @ SetPosition p ax # older" and ax: "2 \<in> set ax"
    and nm: "\<forall>e \<in> set newer. \<not> is_z_reset e"
    using z_homed_since_elim by blast
  from eq have "rev (rev evs) = rev (newer @ SetPosition p ax # older)"
    by simp
  then have "evs = rev older @ SetPosition p ax # rev newer"
    by simp
  with ax nm show "\<exists>pre p ax post. evs = pre @ SetPosition p ax # post \<and> 2 \<in> set ax \<and>
      (\<forall>e \<in> set post. \<not> is_z_reset e)"
    by (metis set_rev)
next
  assume "\<exists>pre p ax post. evs = pre @ SetPosition p ax # post \<and> 2 \<in> set ax \<and>
      (\<forall>e \<in> set post. \<not> is_z_reset e)"
  then obtain pre p ax post where eq: "evs = pre @ SetPosition p ax # post"
    and ax: "2 \<in> set ax" and nm: "\<forall>e \<in> set post. \<not> is_z_reset e"
    by blast
  from eq have "rev evs = rev post @ SetPosition p ax # rev pre"
    by simp
  moreover have "z_homed_since (rev post @ SetPosition p ax # rev pre)"
    using nm ax by (intro z_homed_since_intro) simp_all
  ultimately show "z_homed_since (rev evs)"
    by simp
qed

text \<open>
  After homing all axes and then \<^verbatim>\<open>note_z_not_homed\<close>, the example machine has XY
  homed and Z unhomed.
\<close>

theorem boundary_state_invariant_witness:
  "position_min ex_rail_z \<le> position_max ex_rail_z \<and>
   xy_homed_since (rev [SetPosition (Coord 0 0 0 0) [0, 1, 2], NoteZNotHomed]) \<and>
   \<not> z_homed_since (rev [SetPosition (Coord 0 0 0 0) [0, 1, 2], NoteZNotHomed]) \<and>
   0 \<le> limit_xy2 (run [SetPosition (Coord 0 0 0 0) [0, 1, 2], NoteZNotHomed] ex_kin) \<and>
   \<not> fst (limit_z (run [SetPosition (Coord 0 0 0 0) [0, 1, 2], NoteZNotHomed] ex_kin))
       \<le> snd (limit_z (run [SetPosition (Coord 0 0 0 0) [0, 1, 2], NoteZNotHomed] ex_kin))"
  using boundary_state_invariant [of ex_rail_z
      "[SetPosition (Coord 0 0 0 0) [0, 1, 2], NoteZNotHomed]" "''stepper_bed''" ex_rail_x
      50 100 5 10]
  by (simp add: ex_kin_def ex_rail_z_def)

subsection \<open>calc_position\<close>

text \<open>
  Claim C5. For every angle \<open>\<theta>\<close>, radial position \<open>r\<close> and linear position \<open>z\<close> that the
  dictionary holds under the names of the bed stepper and the two rails,
  \<open>calc_position\<close> returns (as the one element of a list) \<open>x = 0.5 * (cos \<theta> * r - z)\<close>,
  \<open>y = sin \<theta> * r\<close>, \<open>z_cart = 0.5 * (r + z)\<close>; at \<open>\<theta> = 0\<close>, \<open>r = 10\<close>, \<open>z = 2\<close> this is
  \<open>(4, 0, 6)\<close> and at \<open>\<theta> = \<pi>/2\<close>, \<open>r = 10\<close>, \<open>z = 0\<close> it is \<open>(0, 10, 5)\<close>.
\<close>

theorem calc_position_formula:
  assumes "stepper_positions (bed_name k) = Some theta"
    and "stepper_positions (rail_name (rail_x k)) = Some r"
    and "stepper_positions (rail_name (rail_z k)) = Some z"
  shows "calc_position k stepper_positions =
           Inr [[0.5 * (cos theta * r - z), sin theta * r, 0.5 * (r + z)]] \<and>
         (theta = 0 \<and> r = 10 \<and> z = 2 \<longrightarrow>
            calc_position k stepper_positions = Inr [[4, 0, 6]]) \<and>
         (theta = pi / 2 \<and> r = 10 \<and> z = 0 \<longrightarrow>
            calc_position k stepper_positions = Inr [[0, 10, 5]])"
proof -
  have general: "calc_position k stepper_positions =
      Inr [[0.5 * (cos theta * r - z), sin theta * r, 0.5 * (r + z)]]"
    using assms by (simp add: calc_position_def lookup_def rails_def get_name_def)
  have at_zero: "calc_position k stepper_positions = Inr [[4, 0, 6]]"
    if "theta = 0 \<and> r = 10 \<and> z = 2"
    using that general by simp
  have at_quarter: "calc_position k stepper_positions = Inr [[0, 10, 5]]"
    if "theta = pi / 2 \<and> r = 10 \<and> z = 0"
  proof -
    from that have "cos theta = 0" and "sin theta = 1" and "r = 10" and "z = 0"
      by (simp_all only: cos_pi_half sin_pi_half)
    with general show ?thesis by simp
  qed
  from general at_zero at_quarter show ?thesis by blast
qed

text \<open>The two examples on the example machine, with its stepper names.\<close>

theorem calc_position_formula_witness:
  "calc_position ex_kin [''stepper_bed'' \<mapsto> 0, ''stepper_x'' \<mapsto> 10, ''stepper_z'' \<mapsto> 2]
     = Inr [[4, 0, 6]] \<and>
   calc_position ex_kin [''stepper_bed'' \<mapsto> pi / 2, ''stepper_x'' \<mapsto> 10, ''stepper_z'' \<mapsto> 0]
     = Inr [[0, 10, 5]]"
  using calc_position_formula [of "[''stepper_bed'' \<mapsto> 0, ''stepper_x'' \<mapsto> 10, ''stepper_z'' \<mapsto> 2]"
      ex_kin 0 10 2]
    calc_position_formula [of "[''stepper_bed'' \<mapsto> pi / 2, ''stepper_x'' \<mapsto> 10, ''stepper_z'' \<mapsto> 0]"
      ex_kin "pi / 2" 10 0]
  by (simp add: ex_kin_def init_def Let_def ex_rail_x_def ex_rail_z_def)

subsection \<open>Homing\<close>

lemma ex_kin_rails: "rail_x ex_kin = ex_rail_x" "rail_z ex_kin = ex_rail_z"
  "rail_x ex_kin_mid = ex_rail_mid" "rail_z ex_kin_mid = ex_rail_z"
  by (simp_all add: ex_kin_def ex_kin_mid_def init_def Let_def)

text \<open>
  \<^verbatim>\<open>_home_axis\<close> at the three axes it is called with: the force position is the end of
  the travel away from the endstop.
\<close>

lemma home_axis_0:
  "home_axis hs 0 rl = Inr (home_rails [rl]
     [Some (if positive_dir (homing rl) then position_min rl else position_max rl),
      Some 0, None, None]
     [Some (position_endstop (homing rl)), Some 0, None, None] hs)"
  by (simp add: home_axis_def Let_def get_range_def get_homing_info_def)

lemma home_axis_1:
  "home_axis hs (Suc 0) rl = Inr (home_rails [rl]
     [None, Some (if positive_dir (homing rl) then position_min rl else position_max rl),
      None, None]
     [None, Some (position_endstop (homing rl)), None, None] hs)"
  by (simp add: home_axis_def Let_def get_range_def get_homing_info_def)

lemma home_axis_2:
  "home_axis hs 2 rl = Inr (home_rails [rl]
     [None, None, Some (if positive_dir (homing rl) then position_min rl else position_max rl),
      None]
     [None, None, Some (position_endstop (homing rl)), None] hs)"
  by (simp add: home_axis_def Let_def get_range_def get_homing_info_def)

text \<open>
  Claim C7, as amended. When either planar axis is requested, \<open>home\<close> sets the
  requested axes to \<open>[0, 1]\<close> (followed by 2 when Z was requested) and hands two
  homing moves to the coordinator for the plane, one after the other and both with the
  radial rail alone: the first for axis 0 (home position: the endstop at index 0 and 0 at
  index 1), the second for axis 1 (home position: the endstop at index 1); a third, with
  the Z rail, follows when Z was requested.
\<close>

theorem home_planar:
  assumes "0 \<in> set (axes hs) \<or> 1 \<in> set (axes hs)"
  shows "home k hs = Inr (hs\<lparr>
      axes := [0, 1] @ (if 2 \<in> set (axes hs) then [2] else []),
      home_rails_calls := home_rails_calls hs @
        [([rail_x k],
          [Some (if positive_dir (homing (rail_x k))
                 then position_min (rail_x k) else position_max (rail_x k)),
           Some 0, None, None],
          [Some (position_endstop (homing (rail_x k))), Some 0, None, None]),
         ([rail_x k],
          [None,
           Some (if positive_dir (homing (rail_x k))
                 then position_min (rail_x k) else position_max (rail_x k)),
           None, None],
          [None, Some (position_endstop (homing (rail_x k))), None, None])] @
        (if 2 \<in> set (axes hs)
         then [([rail_z k],
                [None, None,
                 Some (if positive_dir (homing (rail_z k))
                       then position_min (rail_z k) else position_max (rail_z k)),
                 None],
                [None, None, Some (position_endstop (homing (rail_z k))), None])]
         else [])\<rparr>)"
  using assms
  by (simp add: home_def Let_def home_axis_0 home_axis_1 home_axis_2 rails_def
      get_axes_def set_axes_def home_rails_def)

text \<open>Requesting axis 1 alone on the example machine.\<close>

theorem home_planar_witness:
  "(0 \<in> set (axes \<lparr>axes = [1], home_rails_calls = []\<rparr>) \<or>
   1 \<in> set (axes \<lparr>axes = [1], home_rails_calls = []\<rparr>)) \<and>
   home ex_kin \<lparr>axes = [1], home_rails_calls = []\<rparr> =
     Inr \<lparr>axes = [0, 1], home_rails_calls =
       [([ex_rail_x], [Some 10, Some 0, None, None], [Some 0, Some 0, None, None]),
        ([ex_rail_x], [None, Some 10, None, None], [None, Some 0, None, None])]\<rparr>"
  using home_planar [of "\<lparr>axes = [1], home_rails_calls = []\<rparr>" ex_kin]
  by (simp add: ex_kin_rails ex_rail_x_def)

text \<open>
  Claim C7 as stated fails when axis 0 alone is requested on the example machine: the
  coordinator receives two hand-offs for the plane, not one combined move.
\<close>

theorem home_two_moves_counterexample:
  "home ex_kin \<lparr>axes = [0], home_rails_calls = []\<rparr> =
     Inr \<lparr>axes = [0, 1], home_rails_calls =
       [([ex_rail_x], [Some 10, Some 0, None, None], [Some 0, Some 0, None, None]),
        ([ex_rail_x], [None, Some 10, None, None], [None, Some 0, None, None])]\<rparr>"
  by (simp add: home_def Let_def home_axis_0 home_axis_1 rails_def
      get_axes_def set_axes_def home_rails_def ex_kin_rails ex_rail_x_def)

text \<open>The loop of \<^verbatim>\<open>home2\<close> over axes 0 and 1, from any homing state.\<close>

lemma home2_loop_planar:
  assumes "\<forall>a \<in> set as. a < 2"
  shows "home2_loop k as hs =
     (None, hs\<lparr>home_rails_calls := home_rails_calls hs @
        map (\<lambda>axis.
              ([rails k ! axis],
               [None, None, None, None][axis := Some
                  (if positive_dir (homing (rails k ! axis))
                   then position_endstop (homing (rails k ! axis))
                        - 1.5 * (position_endstop (homing (rails k ! axis))
                                 - position_min (rails k ! axis))
                   else position_endstop (homing (rails k ! axis))
                        + 1.5 * (position_max (rails k ! axis)
                                 - position_endstop (homing (rails k ! axis))))],
               [None, None, None, None][axis := Some
                  (position_endstop (homing (rails k ! axis)))])) as\<rparr>)"
  using assms
proof (induction as arbitrary: hs)
  case Nil
  show ?case by simp
next
  case (Cons a as)
  then have a: "a < 2" and rest: "\<forall>a \<in> set as. a < 2"
    by simp_all
  from a have "a = 0 \<or> a = 1" by auto
  then show ?case
    using Cons.IH [OF rest]
    by (auto simp: get_item_def rails_def Let_def get_range_def get_homing_info_def
        home_rails_def)
qed

text \<open>
  Claim C8, as amended. For every requested axes list with entries 0 and 1 only,
  \<open>home2\<close> raises nothing and hands one homing move per entry to the coordinator, in the
  order given and skipping none (the conditional on axis 1 changes nothing), each with the
  rail \<^verbatim>\<open>self.rails[axis]\<close>, the endstop position as home position at the axis
  index, and a force position that is the endstop position minus
  \<open>1.5 * (endstop - position_min)\<close> when the rail homes in the positive direction and
  plus \<open>1.5 * (position_max - endstop)\<close> otherwise.
\<close>

theorem home2_calls:
  assumes "\<forall>a \<in> set (axes hs). a < 2"
  shows "home2 k hs =
     (None, hs\<lparr>home_rails_calls := home_rails_calls hs @
        map (\<lambda>axis.
              ([rails k ! axis],
               [None, None, None, None][axis := Some
                  (if positive_dir (homing (rails k ! axis))
                   then position_endstop (homing (rails k ! axis))
                        - 1.5 * (position_endstop (homing (rails k ! axis))
                                 - position_min (rails k ! axis))
                   else position_endstop (homing (rails k ! axis))
                        + 1.5 * (position_max (rails k ! axis)
                                 - position_endstop (homing (rails k ! axis))))],
               [None, None, None, None][axis := Some
                  (position_endstop (homing (rails k ! axis)))])) (axes hs)\<rparr>)"
  using assms by (simp add: home2_def get_axes_def home2_loop_planar)

text \<open>Requesting axis 1, then axis 0, on the example machine.\<close>

theorem home2_calls_witness:
  "home2 ex_kin \<lparr>axes = [1, 0], home_rails_calls = []\<rparr> =
     (None, \<lparr>axes = [1, 0], home_rails_calls =
        [([ex_rail_z], [None, Some 30, None, None], [None, Some 0, None, None]),
         ([ex_rail_x], [Some 15, None, None, None], [Some 0, None, None, None])]\<rparr>)"
  using home2_calls [of "\<lparr>axes = [1, 0], home_rails_calls = []\<rparr>" ex_kin]
  by (simp add: rails_def ex_kin_rails ex_rail_x_def ex_rail_z_def)

text \<open>
  Claim C8 as stated fails twice. With axis 2 requested on the example machine,
  \<^verbatim>\<open>self.rails[2]\<close> raises \<^verbatim>\<open>IndexError\<close> and nothing is handed over. With the endstop
  at 5 in a travel of \<open>[0, 10]\<close>, the force position is \<open>5 - 1.5 * 5 = -2.5\<close>, not the
  endstop minus 1.5 times the rail's range.
\<close>

theorem home2_counterexample:
  "home2 ex_kin \<lparr>axes = [2], home_rails_calls = []\<rparr> =
     (Some IndexError, \<lparr>axes = [2], home_rails_calls = []\<rparr>) \<and>
   home2 ex_kin_mid \<lparr>axes = [0], home_rails_calls = []\<rparr> =
     (None, \<lparr>axes = [0], home_rails_calls =
        [([ex_rail_mid], [Some (- 2.5), None, None, None], [Some 5, None, None, None])]\<rparr>) \<and>
   position_endstop (homing ex_rail_mid)
     - 1.5 * (position_max ex_rail_mid - position_min ex_rail_mid) \<noteq> - 2.5"
  by (simp add: home2_def get_axes_def get_item_def rails_def Let_def get_range_def
      get_homing_info_def home_rails_def ex_kin_rails ex_rail_mid_def)

subsection \<open>segment_move\<close>

text \<open>Distances compare as their squares do.\<close>

lemma distance_less_iff:
  "distance p q < distance p' q' \<longleftrightarrow> sqrdistance p q < sqrdistance p' q'"
  by (simp add: distance_sqrdistance)

lemma distance_less_bound:
  assumes "0 \<le> c"
  shows "distance p q < c \<longleftrightarrow> sqrdistance p q < c\<^sup>2"
proof -
  have "distance p q < c \<longleftrightarrow> sqrt (sqrdistance p q) < sqrt (c\<^sup>2)"
    using assms by (simp add: distance_sqrdistance)
  then show ?thesis
    by (simp only: real_sqrt_less_iff)
qed

text \<open>
  The loop: the start and end selections do not interfere, and each keeps the least
  distance seen so far below its initial bound, with the first option that reached it.
\<close>

lemma segment_step_start:
  "closest_to_start (segment_step mv c st) =
     (if distance c (xy (start_pos mv)) < closest_to_start st
      then distance c (xy (start_pos mv)) else closest_to_start st)"
  "closest_start_pos (segment_step mv c st) =
     (if distance c (xy (start_pos mv)) < closest_to_start st
      then Some c else closest_start_pos st)"
  by (simp_all add: segment_step_def Let_def)

lemma segment_step_end:
  "closest_to_end (segment_step mv c st) =
     (if distance c (xy (end_pos mv)) < closest_to_end st
      then distance c (xy (end_pos mv)) else closest_to_end st)"
  "closest_end_pos (segment_step mv c st) =
     (if distance c (xy (end_pos mv)) < closest_to_end st
      then Some c else closest_end_pos st)"
  by (simp_all add: segment_step_def Let_def)

lemma fold_segment_step_start:
  "(\<forall>c \<in> set cs. closest_to_start (fold (segment_step mv) cs st)
       \<le> distance c (xy (start_pos mv))) \<and>
   closest_to_start (fold (segment_step mv) cs st) \<le> closest_to_start st \<and>
   (closest_to_start (fold (segment_step mv) cs st) = closest_to_start st \<and>
    closest_start_pos (fold (segment_step mv) cs st) = closest_start_pos st \<or>
    (\<exists>v \<in> set cs. closest_start_pos (fold (segment_step mv) cs st) = Some v \<and>
       closest_to_start (fold (segment_step mv) cs st) = distance v (xy (start_pos mv))))"
proof (induction cs arbitrary: st)
  case Nil
  show ?case by simp
next
  case (Cons c cs)
  from Cons [of "segment_step mv c st"] show ?case
    by (cases "distance c (xy (start_pos mv)) < closest_to_start st")
      (fastforce simp: segment_step_start)+
qed

lemma fold_segment_step_end:
  "(\<forall>c \<in> set cs. closest_to_end (fold (segment_step mv) cs st)
       \<le> distance c (xy (end_pos mv))) \<and>
   closest_to_end (fold (segment_step mv) cs st) \<le> closest_to_end st \<and>
   (closest_to_end (fold (segment_step mv) cs st) = closest_to_end st \<and>
    closest_end_pos (fold (segment_step mv) cs st) = closest_end_pos st \<or>
    (\<exists>v \<in> set cs. closest_end_pos (fold (segment_step mv) cs st) = Some v \<and>
       closest_to_end (fold (segment_step mv) cs st) = distance v (xy (end_pos mv))))"
proof (induction cs arbitrary: st)
  case Nil
  show ?case by simp
next
  case (Cons c cs)
  from Cons [of "segment_step mv c st"] show ?case
    by (cases "distance c (xy (end_pos mv)) < closest_to_end st")
      (fastforce simp: segment_step_end)+
qed

lemma loop_selects_start:
  assumes "\<exists>c \<in> set cs. distance c (xy (start_pos mv)) < closest_to_start st"
  shows "\<exists>v. closest_start_pos (fold (segment_step mv) cs st) = Some v \<and>
           nearest cs (xy (start_pos mv)) v"
proof -
  let ?st = "fold (segment_step mv) cs st"
  from assms obtain c where c: "c \<in> set cs" "distance c (xy (start_pos mv)) < closest_to_start st"
    by blast
  have all: "\<forall>c \<in> set cs. closest_to_start ?st \<le> distance c (xy (start_pos mv))"
    using fold_segment_step_start [of cs mv st] by blast
  with c have "closest_to_start ?st < closest_to_start st"
    by fastforce
  then obtain v where v: "v \<in> set cs" "closest_start_pos ?st = Some v"
      "closest_to_start ?st = distance v (xy (start_pos mv))"
    using fold_segment_step_start [of cs mv st] by force
  with all show ?thesis
    by (simp add: nearest_def)
qed

lemma loop_selects_end:
  assumes "\<exists>c \<in> set cs. distance c (xy (end_pos mv)) < closest_to_end st"
  shows "\<exists>v. closest_end_pos (fold (segment_step mv) cs st) = Some v \<and>
           nearest cs (xy (end_pos mv)) v"
proof -
  let ?st = "fold (segment_step mv) cs st"
  from assms obtain c where c: "c \<in> set cs" "distance c (xy (end_pos mv)) < closest_to_end st"
    by blast
  have all: "\<forall>c \<in> set cs. closest_to_end ?st \<le> distance c (xy (end_pos mv))"
    using fold_segment_step_end [of cs mv st] by blast
  with c have "closest_to_end ?st < closest_to_end st"
    by fastforce
  then obtain v where v: "v \<in> set cs" "closest_end_pos ?st = Some v"
      "closest_to_end ?st = distance v (xy (end_pos mv))"
    using fold_segment_step_end [of cs mv st] by force
  with all show ?thesis
    by (simp add: nearest_def)
qed

text \<open>
  What holds of claim C2 on the code: without a crossing the result is the sentinel; with
  one, and with some candidate nearer than 100000 to the start and some candidate nearer
  than 100000 to the end, the result is the three-segment path through a candidate nearest
  to the start and a candidate nearest to the end; and the two examples of the claim.
\<close>

lemma segment_move_no_crossing:
  assumes "\<not> crosses_point (0, 0) (xy (start_pos mv)) (xy (end_pos mv))"
  shows "segment_move mv = None"
  using assms by (simp add: segment_move_def)

lemma segment_move_selects:
  assumes "crosses_point (0, 0) (xy (start_pos mv)) (xy (end_pos mv))"
    and "\<exists>c \<in> set (move_options mv). distance c (xy (start_pos mv)) < 100000"
    and "\<exists>c \<in> set (move_options mv). distance c (xy (end_pos mv)) < 100000"
  shows "\<exists>via_start via_end.
           segment_move mv =
             Some [(Pos (start_pos mv), Via (Some via_start)),
                   (Via (Some via_start), Via (Some via_end)),
                   (Via (Some via_end), Pos (end_pos mv))] \<and>
           nearest (move_options mv) (xy (start_pos mv)) via_start \<and>
           nearest (move_options mv) (xy (end_pos mv)) via_end"
proof -
  let ?init = "\<lparr>closest_to_start = 100000, closest_to_end = 100000,
                closest_end_pos = None, closest_start_pos = None\<rparr>"
  obtain vs where vs: "closest_start_pos (fold (segment_step mv) (move_options mv) ?init) = Some vs"
      "nearest (move_options mv) (xy (start_pos mv)) vs"
    using loop_selects_start [of "move_options mv" mv ?init] assms(2) by auto
  obtain ve where ve: "closest_end_pos (fold (segment_step mv) (move_options mv) ?init) = Some ve"
      "nearest (move_options mv) (xy (end_pos mv)) ve"
    using loop_selects_end [of "move_options mv" mv ?init] assms(3) by auto
  from assms(1) vs ve show ?thesis
    by (simp add: segment_move_def Let_def)
qed

lemma segment_move_examples:
  "segment_move ex_move_through =
     Some [(Pos (Coord (- 1) 0 0 0), Via (Some (- 0.005, 0))),
           (Via (Some (- 0.005, 0)), Via (Some (0.005, 0))),
           (Via (Some (0.005, 0)), Pos (Coord 1 0 0 0))]"
  "segment_move ex_move_away = None"
  by (simp_all add: segment_move_def Let_def crosses_point_def move_options_def
      segment_step_start segment_step_end distance_less_iff distance_less_bound
      sqrdistance_def xy_def ex_move_through_def ex_move_away_def power2_eq_square)

text \<open>
  Claim C2 on the move from \<open>(-200000, 0)\<close> to \<open>(200000, 0)\<close>, which crosses the center.
  Every candidate is farther than the initial bound 100000 from both endpoints, so the
  loop selects nothing, and the returned path runs through \<^verbatim>\<open>None\<close> instead of the
  nearest candidates \<open>(-0.005, 0)\<close> and \<open>(0.005, 0)\<close>.
\<close>

theorem segment_move_far:
  "segment_move ex_move_far =
     Some [(Pos (Coord (- 200000) 0 0 0), Via None),
           (Via None, Via None),
           (Via None, Pos (Coord 200000 0 0 0))]"
  by (simp add: segment_move_def Let_def crosses_point_def move_options_def
      segment_step_start segment_step_end distance_less_iff distance_less_bound
      sqrdistance_def xy_def ex_move_far_def power2_eq_square)

end
